theory Spec2Isabelle
  imports Main
begin

section \<open>Data model\<close>

text \<open>
  Shallow embedding of the discharger's visit completion
  (\<^verbatim>\<open>dischargeTokenCreator\<close>, \<^verbatim>\<open>visitCompleter\<close>) and of the per-request
  handler creator (\<^verbatim>\<open>handlerCreator\<close>, \<^verbatim>\<open>handler.Close\<close>).

  A \<^verbatim>\<open>time.Time\<close> is an integer count of nanoseconds since Go's zero time, so that
  the zero value of the type is \<open>0\<close>; a \<^verbatim>\<open>time.Duration\<close> is an integer count of
  nanoseconds. A \<^verbatim>\<open>[]byte\<close> is a list of 8-bit characters.
\<close>

type_synonym time = int
type_synonym Duration = int
type_synonym bytes = string

definition Minute :: Duration where
  "Minute = 60 * 1000000000"

definition Hour :: Duration where
  "Hour = 60 * Minute"

definition identityMacaroonDuration :: Duration where
  "identityMacaroonDuration = 28 * 24 * Hour"

definition dischargeTokenDuration :: Duration where
  "dischargeTokenDuration = identityMacaroonDuration"

definition time_Add :: "time \<Rightarrow> Duration \<Rightarrow> time" where
  "time_Add t d = t + d"

definition StatusSeeOther :: nat where
  "StatusSeeOther = 303"

subsection \<open>Errors\<close>

text \<open>
  \<^verbatim>\<open>bakery.Version\<close>, the four versions the bakery defines, and
  \<^verbatim>\<open>httpbakery.Error\<close>: the code, the message, and the protocol version the error was
  made for (the zero value of the field is \<^verbatim>\<open>Version0\<close>).
\<close>

datatype Version = Version0 | Version1 | Version2 | Version3

record httpbakery_Error =
  Code :: string
  Message :: string
  version :: Version

text \<open>
  An error value is a \<^verbatim>\<open>params.ErrorCode\<close> (a string used as an error), an
  \<^verbatim>\<open>*errgo.Err\<close> with its three fields \<^verbatim>\<open>Message_\<close>, \<^verbatim>\<open>Underlying_\<close> and
  \<^verbatim>\<open>Cause_\<close> (each of the last two may be nil), an \<^verbatim>\<open>*httpbakery.Error\<close>, or any
  other error, of which only the text is kept.
\<close>

datatype error =
    ErrorCode string
  | Opaque string
  | Err string "error option" "error option"
  | BakeryError httpbakery_Error

definition ErrBadRequest :: error where
  "ErrBadRequest = ErrorCode ''bad request''"

definition ErrUnauthorized :: error where
  "ErrUnauthorized = ErrorCode ''unauthorized''"

text \<open>\<^verbatim>\<open>err.Error()\<close>: the text of an error, as errgo composes it.\<close>

fun Error :: "error \<Rightarrow> string" where
  "Error (ErrorCode s) = s"
| "Error (Opaque s) = s"
| "Error (Err m None c) = (if m = [] then ''<no error>'' else m)"
| "Error (Err m (Some u) c) = (if m = [] then Error u else m @ '': '' @ Error u)"
| "Error (BakeryError e) = Message e"

text \<open>
  \<^verbatim>\<open>errgo.Cause\<close>: the recorded cause of an \<^verbatim>\<open>*errgo.Err\<close> when it has one, the error
  itself otherwise.
\<close>

fun Cause :: "error \<Rightarrow> error" where
  "Cause (Err m u (Some c)) = c"
| "Cause e = e"

text \<open>
  \<^verbatim>\<open>errgo.Mask(err)\<close> on a non-nil error: a new error that wraps \<^verbatim>\<open>err\<close> and hides its
  cause. \<^verbatim>\<open>errgo.Mask(err, errgo.Any)\<close> keeps the cause.
  \<^verbatim>\<open>errgo.WithCausef(underlying, cause, msg)\<close> records all three.
\<close>

definition Mask :: "error \<Rightarrow> error" where
  "Mask err = Err [] (Some err) None"

definition Mask_Any :: "error \<Rightarrow> error" where
  "Mask_Any err = Err [] (Some err) (Some (Cause err))"

definition WithCausef :: "error option \<Rightarrow> error \<Rightarrow> string \<Rightarrow> error" where
  "WithCausef underlying cause msg = Err msg underlying (Some cause)"

subsection \<open>Identities, credentials, caveats\<close>

record Identity =
  Username :: string
  LastLogin :: time

record httpbakery_DischargeToken =
  Kind :: string
  Value :: bytes

record loginInfo =
  li_DischargeToken :: "httpbakery_DischargeToken option"
  li_Error :: "httpbakery_Error option"

datatype Caveat =
    TimeBeforeCaveat time
  | UserDeclaration string

datatype Field = LastLogin_field
datatype Operation = Set_op

text \<open>
  \<^verbatim>\<open>url.URL\<close>: the field the code assigns, \<^verbatim>\<open>RawQuery\<close>, and the rest of the parsed
  address. \<^verbatim>\<open>url.Values\<close> is a map from keys to lists of values; it is kept as an
  association list, and reading a key that is absent gives the empty list, as indexing
  a Go map does.
\<close>

record URL =
  Scheme :: string
  Host :: string
  Path :: string
  RawQuery :: string
  Fragment :: string

type_synonym Values = "(string \<times> string list) list"

definition Values_Get :: "Values \<Rightarrow> string \<Rightarrow> string list" where
  "Values_Get vs k = (case map_of vs k of None \<Rightarrow> [] | Some v \<Rightarrow> v)"

fun Values_Put :: "Values \<Rightarrow> string \<Rightarrow> string list \<Rightarrow> Values" where
  "Values_Put [] k v = [(k, v)]"
| "Values_Put ((k', v') # vs) k v =
     (if k' = k then (k, v) # vs else (k', v') # Values_Put vs k v)"

text \<open>\<^verbatim>\<open>v.Set(key, value)\<close> replaces whatever the key held by the one value.\<close>

definition Values_Set :: "Values \<Rightarrow> string \<Rightarrow> string \<Rightarrow> Values" where
  "Values_Set vs k v = Values_Put vs k [v]"

text \<open>\<^verbatim>\<open>strings.HasPrefix(s, prefix)\<close>.\<close>

definition HasPrefix :: "string \<Rightarrow> string \<Rightarrow> bool" where
  "HasPrefix s p = (length p \<le> length s \<and> take (length p) s = p)"

section \<open>Effects and collaborators\<close>

text \<open>
  Everything the code does to the outside is an event, appended to the history of the
  request in the order the code does it: a reading of the clock, a call of a
  collaborator (oven, identity store, rendezvous place, discharge token store), a line
  of the log, and what is written to the \<^verbatim>\<open>http.ResponseWriter\<close>.
\<close>

text \<open>
  The two per-request handles of the handler creator: the one
  \<^verbatim>\<open>hParams.Store.Context\<close> opens and the one \<^verbatim>\<open>hParams.MeetingStore.Context\<close> opens.
  A \<^verbatim>\<open>bakery.Op\<close> has an entity and an action.
\<close>

datatype Handle = Store_handle | MeetingStore_handle

record Op =
  Entity :: string
  Action :: string

datatype event =
    Ev_Now
  | Ev_NewMacaroon "Caveat list"
  | Ev_UpdateIdentity Identity "(Field \<times> Operation) list"
  | Ev_Identity Identity
  | Ev_Done string loginInfo
  | Ev_Put httpbakery_DischargeToken time
  | Ev_Errorf string
  | Ev_Header_Set string string
  | Ev_Write string
  | Ev_WriteError error
  | Ev_Redirect string nat
  | Ev_trace_New
  | Ev_Context Handle
  | Ev_close Handle
  | Ev_Debugf string
  | Ev_Auth Op
  | Ev_Finish
  | Ev_ObserveMetric

text \<open>
  The collaborators are not part of the source: they are parameters. Each one that has
  state of its own (the clock, the oven, the stores, the rendezvous place) answers as
  a function of the history so far and of its arguments, so it may answer differently
  on every call. \<open>'m\<close> is the type of macaroons, \<open>'t\<close> the type of templates.
\<close>

record ('m, 't) env =
  Location :: string
  ext_Now :: "event list \<Rightarrow> time"
  ext_NewMacaroon :: "event list \<Rightarrow> Caveat list \<Rightarrow> error + 'm"
  ext_MarshalBinary :: "'m \<Rightarrow> error + bytes"
  ext_UnmarshalBinary :: "bytes \<Rightarrow> error + 'm"
  ext_InferDeclared :: "'m \<Rightarrow> string \<Rightarrow> string"
  ext_UpdateIdentity :: "event list \<Rightarrow> Identity \<Rightarrow> error option \<times> Identity"
  ext_Identity :: "event list \<Rightarrow> Identity \<Rightarrow> error option \<times> Identity"
  ext_Done :: "event list \<Rightarrow> string \<Rightarrow> loginInfo \<Rightarrow> error option"
  ext_Put :: "event list \<Rightarrow> httpbakery_DischargeToken \<Rightarrow> time \<Rightarrow> error + string"
  ext_Lookup :: "string \<Rightarrow> 't option"
  ext_Execute :: "'t \<Rightarrow> Identity \<Rightarrow> string list \<times> error option"
  ext_ErrorCode :: "error \<Rightarrow> string"
  ext_Parse :: "string \<Rightarrow> error + URL"
  ext_Query :: "URL \<Rightarrow> Values"
  ext_Encode :: "Values \<Rightarrow> string"
  ext_String :: "URL \<Rightarrow> string"

text \<open>A result, or the panic of a nil pointer dereference.\<close>

datatype 'a outcome = Panic | Return 'a

definition time_Now :: "('m, 't) env \<Rightarrow> event list \<Rightarrow> time \<times> event list" where
  "time_Now env tr = (ext_Now env tr, tr @ [Ev_Now])"

definition Oven_NewMacaroon ::
  "('m, 't) env \<Rightarrow> event list \<Rightarrow> Caveat list \<Rightarrow> (error + 'm) \<times> event list" where
  "Oven_NewMacaroon env tr cs = (ext_NewMacaroon env tr cs, tr @ [Ev_NewMacaroon cs])"

definition Store_UpdateIdentity ::
  "('m, 't) env \<Rightarrow> event list \<Rightarrow> Identity \<Rightarrow> (Field \<times> Operation) list
     \<Rightarrow> (error option \<times> Identity) \<times> event list" where
  "Store_UpdateIdentity env tr ident upd =
     (ext_UpdateIdentity env tr ident, tr @ [Ev_UpdateIdentity ident upd])"

definition Store_Identity ::
  "('m, 't) env \<Rightarrow> event list \<Rightarrow> Identity \<Rightarrow> (error option \<times> Identity) \<times> event list" where
  "Store_Identity env tr ident = (ext_Identity env tr ident, tr @ [Ev_Identity ident])"

definition place_Done ::
  "('m, 't) env \<Rightarrow> event list \<Rightarrow> string \<Rightarrow> loginInfo \<Rightarrow> error option \<times> event list" where
  "place_Done env tr dischargeID info = (ext_Done env tr dischargeID info, tr @ [Ev_Done dischargeID info])"

definition dischargeTokenStore_Put ::
  "('m, 't) env \<Rightarrow> event list \<Rightarrow> httpbakery_DischargeToken \<Rightarrow> time
     \<Rightarrow> (error + string) \<times> event list" where
  "dischargeTokenStore_Put env tr dt expire = (ext_Put env tr dt expire, tr @ [Ev_Put dt expire])"

section \<open>The minter\<close>

text \<open>
  \<^verbatim>\<open>dischargeTokenCreator.DischargeToken\<close>. The identity is a pointer: \<open>None\<close> is nil,
  and reading \<^verbatim>\<open>id.Username\<close> of nil panics, after the clock has been read for the
  first caveat. The code assigns \<^verbatim>\<open>id.LastLogin\<close> through the pointer, so the identity
  as the caller sees it afterwards is returned with the result.
\<close>

definition DischargeToken ::
  "('m, 't) env \<Rightarrow> event list \<Rightarrow> Identity option
     \<Rightarrow> ((error + httpbakery_DischargeToken) \<times> Identity) outcome \<times> event list" where
  "DischargeToken env tr idp =
     (let (t, tr1) = time_Now env tr in
      case idp of
        None \<Rightarrow> (Panic, tr1)
      | Some ident \<Rightarrow>
          (let (r, tr2) = Oven_NewMacaroon env tr1
                 [TimeBeforeCaveat (time_Add t dischargeTokenDuration),
                  UserDeclaration (Username ident)]
           in case r of
                Inl err \<Rightarrow> (Return (Inl (Mask err), ident), tr2)
              | Inr m \<Rightarrow>
                  (case ext_MarshalBinary env m of
                     Inl err \<Rightarrow> (Return (Inl (Mask err), ident), tr2)
                   | Inr v \<Rightarrow>
                       (let (t2, tr3) = time_Now env tr2;
                            ident1 = ident\<lparr>LastLogin := t2\<rparr>;
                            ((uerr, ident2), tr4) =
                               Store_UpdateIdentity env tr3 ident1 [(LastLogin_field, Set_op)];
                            tr5 = (case uerr of
                                     Some err \<Rightarrow>
                                       tr4 @ [Ev_Errorf (''cannot update last login time: '' @ Error err)]
                                   | None \<Rightarrow> tr4)
                        in (Return (Inr \<lparr>Kind = ''macaroon'', Value = v\<rparr>, ident2), tr5)))))"

section \<open>Visit completion\<close>

text \<open>
  \<^verbatim>\<open>usernameFromDischargeToken\<close>. \<^verbatim>\<open>checkers.InferDeclared(...)["username"]\<close> reads
  a Go map, so a declaration that is absent reads as the empty string.
\<close>

definition usernameFromDischargeToken ::
  "('m, 't) env \<Rightarrow> httpbakery_DischargeToken \<Rightarrow> string" where
  "usernameFromDischargeToken env dt =
     (if Kind dt \<noteq> ''macaroon'' then []
      else case ext_UnmarshalBinary env (Value dt) of
             Inl err \<Rightarrow> []
           | Inr m \<Rightarrow> ext_InferDeclared env m ''username'')"

text \<open>
  \<^verbatim>\<open>httpbakery.ErrorToResponse\<close> gives a status, which the code drops, and a body of
  type \<^verbatim>\<open>interface{}\<close>. The body is the \<^verbatim>\<open>*httpbakery.Error\<close> built from the error:
  a copy of its cause with the text of the error as message when the cause is an
  \<^verbatim>\<open>*httpbakery.Error\<close>, otherwise a new one (so of version 0) that holds the text and
  the code the cause reports through \<^verbatim>\<open>httpbakery.ErrorCoder\<close>, a parameter. When the
  code is \<^verbatim>\<open>ErrDischargeRequired\<close> or \<^verbatim>\<open>ErrInteractionRequired\<close> and the version is
  not 0, the body is that error wrapped in an \<^verbatim>\<open>httprequest.CustomHeader\<close>.
\<close>

definition httpbakery_ErrDischargeRequired :: string where
  "httpbakery_ErrDischargeRequired = ''macaroon discharge required''"

definition httpbakery_ErrInteractionRequired :: string where
  "httpbakery_ErrInteractionRequired = ''interaction required''"

datatype body = Body_Error httpbakery_Error | Body_CustomHeader httpbakery_Error

definition errorResponseBody :: "('m, 't) env \<Rightarrow> error \<Rightarrow> httpbakery_Error" where
  "errorResponseBody env err =
     (case Cause err of
        BakeryError e \<Rightarrow> e\<lparr>Message := Error err\<rparr>
      | cause \<Rightarrow> \<lparr>Code = ext_ErrorCode env cause, Message = Error err, version = Version0\<rparr>)"

definition ErrorToResponse :: "('m, 't) env \<Rightarrow> error \<Rightarrow> body" where
  "ErrorToResponse env err =
     (let errorBody = errorResponseBody env err
      in if Code errorBody = httpbakery_ErrDischargeRequired
            \<or> Code errorBody = httpbakery_ErrInteractionRequired
         then (case version errorBody of
                 Version0 \<Rightarrow> Body_Error errorBody
               | _ \<Rightarrow> Body_CustomHeader errorBody)
         else Body_Error errorBody)"

text \<open>
  \<^verbatim>\<open>visitCompleter.Failure\<close>. The type assertion \<^verbatim>\<open>bakeryErr.(*httpbakery.Error)\<close> is
  evaluated only when the discharge id is not empty, and panics, before
  \<^verbatim>\<open>place.Done\<close> is called, when the body is not an \<^verbatim>\<open>*httpbakery.Error\<close>.
  \<^verbatim>\<open>identity.WriteError\<close> writes the error to the response; the result of
  \<^verbatim>\<open>place.Done\<close> is dropped.
\<close>

definition Failure ::
  "('m, 't) env \<Rightarrow> event list \<Rightarrow> string \<Rightarrow> error \<Rightarrow> unit outcome \<times> event list" where
  "Failure env tr dischargeID err =
     (let bakeryErr = ErrorToResponse env err
      in if dischargeID \<noteq> []
         then (case bakeryErr of
                 Body_Error e \<Rightarrow>
                   (Return (),
                    snd (place_Done env tr dischargeID
                           \<lparr>li_DischargeToken = None, li_Error = Some e\<rparr>)
                    @ [Ev_WriteError err])
               | Body_CustomHeader e \<Rightarrow> (Panic, tr))
         else (Return (), tr @ [Ev_WriteError err]))"

text \<open>
  The end of \<^verbatim>\<open>visitCompleter.successToken\<close> (from the lookup of the \<^verbatim>\<open>login\<close>
  template on): what it writes for an identity. \<^verbatim>\<open>t.Execute(w, id)\<close> makes the
  writes the template got to before it stopped (none, one or several), and may fail;
  the failure goes to the log.
\<close>

definition login_page :: "('m, 't) env \<Rightarrow> Identity \<Rightarrow> event list" where
  "login_page env ident =
     (case ext_Lookup env ''login'' of
        None \<Rightarrow> [Ev_Write (''Login successful as '' @ Username ident)]
      | Some t \<Rightarrow>
          (let (ws, terr) = ext_Execute env t ident
           in [Ev_Header_Set ''Content-Type'' ''text/html;charset=utf-8'']
              @ map Ev_Write ws
              @ (case terr of
                   Some err \<Rightarrow>
                     [Ev_Errorf (''error processing login template: '' @ Error err)]
                 | None \<Rightarrow> [])))"

text \<open>
  \<^verbatim>\<open>visitCompleter.successToken\<close>. An absent identity is replaced by a new one that
  holds the username of the discharge token, which the store then completes.
\<close>

definition successToken ::
  "('m, 't) env \<Rightarrow> event list \<Rightarrow> string \<Rightarrow> httpbakery_DischargeToken \<Rightarrow> Identity option
     \<Rightarrow> unit outcome \<times> event list" where
  "successToken env tr dischargeID dt idp =
     (let (derr, tr1) =
            (if dischargeID \<noteq> []
             then place_Done env tr dischargeID
                    \<lparr>li_DischargeToken = Some dt, li_Error = None\<rparr>
             else (None, tr))
      in case derr of
           Some err \<Rightarrow> Failure env tr1 dischargeID (Mask err)
         | None \<Rightarrow>
             (let (ident, tr2) =
                    (case idp of
                       Some ident \<Rightarrow> (ident, tr1)
                     | None \<Rightarrow>
                         (let ident0 = \<lparr>Username = usernameFromDischargeToken env dt,
                                        LastLogin = 0\<rparr>;
                              ((lerr, ident1), tr') = Store_Identity env tr1 ident0
                          in (ident1,
                              case lerr of
                                Some err \<Rightarrow>
                                  tr' @ [Ev_Errorf (''cannot look up user identity: '' @ Error err)]
                              | None \<Rightarrow> tr')))
              in (Return (), tr2 @ login_page env ident)))"

text \<open>\<^verbatim>\<open>visitCompleter.Success\<close>.\<close>

definition Success ::
  "('m, 't) env \<Rightarrow> event list \<Rightarrow> string \<Rightarrow> Identity option \<Rightarrow> unit outcome \<times> event list" where
  "Success env tr dischargeID idp =
     (case DischargeToken env tr idp of
        (Panic, tr1) \<Rightarrow> (Panic, tr1)
      | (Return (Inl err, ident), tr1) \<Rightarrow> Failure env tr1 dischargeID (Mask err)
      | (Return (Inr dt, ident), tr1) \<Rightarrow> successToken env tr1 dischargeID dt (Some ident))"

text \<open>
  \<^verbatim>\<open>visitCompleter.redirect\<close>. \<^verbatim>\<open>url.Parse\<close> gives a nil address exactly when it
  gives an error, so the test \<^verbatim>\<open>!strings.HasPrefix(...) || err != nil\<close> is split on
  the result of the parse; the underlying error of the \<^verbatim>\<open>BadRequest\<close> is the parse
  error, nil when only the prefix is wrong. The loop over \<^verbatim>\<open>query\<close> is a fold over
  its entries; \<^verbatim>\<open>http.Redirect\<close> is the event \<open>Ev_Redirect\<close> with the address and the
  status.
\<close>

definition redirect ::
  "('m, 't) env \<Rightarrow> event list \<Rightarrow> string \<Rightarrow> Values \<Rightarrow> error option \<times> event list" where
  "redirect env tr returnTo query =
     (case ext_Parse env returnTo of
        Inl err \<Rightarrow> (Some (WithCausef (Some err) ErrBadRequest ''invalid return_to''), tr)
      | Inr u \<Rightarrow>
          if \<not> HasPrefix returnTo (Location env)
          then (Some (WithCausef None ErrBadRequest ''invalid return_to''), tr)
          else (let q = fold (\<lambda>(k, v) q. Values_Put q k (Values_Get q k @ v))
                          query (ext_Query env u);
                    u' = u\<lparr>RawQuery := ext_Encode env q\<rparr>
                in (None, tr @ [Ev_Redirect (ext_String env u') StatusSeeOther])))"

text \<open>\<^verbatim>\<open>visitCompleter.RedirectFailure\<close>.\<close>

definition RedirectFailure ::
  "('m, 't) env \<Rightarrow> event list \<Rightarrow> string \<Rightarrow> string \<Rightarrow> error \<Rightarrow> unit outcome \<times> event list" where
  "RedirectFailure env tr returnTo state err =
     (let v = [(''error'', [Error err])];
          v = (if state \<noteq> [] then Values_Set v ''state'' state else v);
          v = (case Cause err of
                 ErrorCode ec \<Rightarrow> Values_Set v ''error_code'' ec
               | _ \<Rightarrow> v);
          (rerr, tr1) = redirect env tr returnTo v
      in if rerr = None then (Return (), tr1)
         else (Return (), tr1 @ [Ev_WriteError err]))"

text \<open>\<^verbatim>\<open>visitCompleter.RedirectSuccess\<close>.\<close>

definition RedirectSuccess ::
  "('m, 't) env \<Rightarrow> event list \<Rightarrow> string \<Rightarrow> string \<Rightarrow> Identity option
     \<Rightarrow> unit outcome \<times> event list" where
  "RedirectSuccess env tr returnTo state idp =
     (case DischargeToken env tr idp of
        (Panic, tr1) \<Rightarrow> (Panic, tr1)
      | (Return (Inl err, ident), tr1) \<Rightarrow> RedirectFailure env tr1 returnTo state (Mask err)
      | (Return (Inr dt, ident), tr1) \<Rightarrow>
          (let (t, tr2) = time_Now env tr1;
               (r, tr3) = dischargeTokenStore_Put env tr2 dt (time_Add t (10 * Minute))
           in case r of
                Inl err \<Rightarrow> RedirectFailure env tr3 returnTo state (Mask err)
              | Inr code \<Rightarrow>
                  (let v = [(''code'', [code])];
                       v = (if state \<noteq> [] then Values_Set v ''state'' state else v);
                       (rerr, tr4) = redirect env tr3 returnTo v
                   in case rerr of
                        Some err \<Rightarrow> (Return (), tr4 @ [Ev_WriteError err])
                      | None \<Rightarrow> (Return (), tr4))))"

section \<open>The handler creator\<close>

text \<open>
  \<^verbatim>\<open>opForRequest\<close> and the authorizer are not part of the source: they are parameters.
  \<open>'a\<close> is the type of the request argument.
\<close>

record 'a reqenv =
  ext_opForRequest :: "'a \<Rightarrow> Op"
  ext_Auth :: "event list \<Rightarrow> Op \<Rightarrow> error option"

text \<open>
  \<^verbatim>\<open>Store.Context\<close> and \<^verbatim>\<open>MeetingStore.Context\<close> open a handle and give back the
  function that closes it; a closing function is its effect on the history.
\<close>

definition Context :: "Handle \<Rightarrow> event list \<Rightarrow> (event list \<Rightarrow> event list) \<times> event list" where
  "Context h tr = ((\<lambda>tr'. tr' @ [Ev_close h]), tr @ [Ev_Context h])"

definition reqAuth_Auth :: "'a reqenv \<Rightarrow> event list \<Rightarrow> Op \<Rightarrow> error option \<times> event list" where
  "reqAuth_Auth hParams tr op = (ext_Auth hParams tr op, tr @ [Ev_Auth op])"

record handler =
  close :: "event list \<Rightarrow> event list"

text \<open>\<^verbatim>\<open>handler.Close\<close>.\<close>

definition handler_Close :: "handler \<Rightarrow> event list \<Rightarrow> error option \<times> event list" where
  "handler_Close h tr = (None, close h tr @ [Ev_Finish, Ev_ObserveMetric])"

text \<open>
  The function \<^verbatim>\<open>handlerCreator\<close> returns. Its Go result
  \<^verbatim>\<open>(*handler, context.Context, error)\<close> is a handler or an error.
\<close>

definition handlerCreator ::
  "'a reqenv \<Rightarrow> event list \<Rightarrow> 'a \<Rightarrow> (error + handler) \<times> event list" where
  "handlerCreator hParams tr arg =
     (let tr1 = tr @ [Ev_trace_New];
          (close1, tr2) = Context Store_handle tr1;
          (close2, tr3) = Context MeetingStore_handle tr2;
          hnd = \<lparr>close = (\<lambda>tr'. close1 (close2 tr'))\<rparr>;
          op = ext_opForRequest hParams arg;
          tr4 = tr3 @ [Ev_Debugf ''opForRequest'']
      in if Entity op = []
         then (Inl ErrUnauthorized, snd (handler_Close hnd tr4))
         else (let (err, tr5) = reqAuth_Auth hParams tr4 op
               in case err of
                    Some err \<Rightarrow> (Inl (Mask_Any err), snd (handler_Close hnd tr5))
                  | None \<Rightarrow> (Inr hnd, tr5)))"

text \<open>
  How many handles of a kind are open after a history: those opened and not yet
  closed.
\<close>

definition held :: "Handle \<Rightarrow> event list \<Rightarrow> int" where
  "held h tr = int (length (filter (\<lambda>e. e = Ev_Context h) tr))
             - int (length (filter (\<lambda>e. e = Ev_close h) tr))"

text \<open>Whether an event is a redirect response.\<close>

fun is_Redirect :: "event \<Rightarrow> bool" where
  "is_Redirect (Ev_Redirect u c) = True"
| "is_Redirect e = False"

text \<open>Whether an event is a delivery to the rendezvous place.\<close>

fun is_Done :: "event \<Rightarrow> bool" where
  "is_Done (Ev_Done d info) = True"
| "is_Done e = False"

section \<open>A concrete configuration\<close>

text \<open>
  A service at \<^verbatim>\<open>https://svc\<close> on which the properties below are run: a macaroon is
  its list of caveats and marshals to the username it declares; the identity store is
  down (updates and lookups fail); the rendezvous \<^verbatim>\<open>gone\<close> is unknown; the login
  template fails after writing its first bytes.
\<close>

definition declared :: "Caveat list \<Rightarrow> string" where
  "declared m = concat (map (\<lambda>c. case c of UserDeclaration u \<Rightarrow> u | TimeBeforeCaveat t \<Rightarrow> []) m)"

definition example_env :: "(Caveat list, string) env" where
  "example_env =
     \<lparr>Location = ''https://svc'',
      ext_Now = (\<lambda>tr. 1000 * int (length tr)),
      ext_NewMacaroon = (\<lambda>tr cs. Inr cs),
      ext_MarshalBinary = (\<lambda>m. Inr (declared m)),
      ext_UnmarshalBinary =
        (\<lambda>b. if b = [] then Inl (Opaque ''empty macaroon'') else Inr [UserDeclaration b]),
      ext_InferDeclared = (\<lambda>m k. if k = ''username'' then declared m else []),
      ext_UpdateIdentity = (\<lambda>tr i. (Some (Opaque ''store down''), i)),
      ext_Identity = (\<lambda>tr i. (Some (Opaque ''not found''), i)),
      ext_Done =
        (\<lambda>tr d info. if d = ''gone'' then Some (Opaque ''rendezvous not found'') else None),
      ext_Put = (\<lambda>tr dt t. Inr ''c0de''),
      ext_Lookup = (\<lambda>n. if n = ''login'' then Some ''page'' else None),
      ext_Execute = (\<lambda>t i. ([''<p>'' @ Username i], Some (Opaque ''template broken''))),
      ext_ErrorCode = (\<lambda>e. []),
      ext_Parse =
        (\<lambda>s. if s = [] then Inl (Opaque ''empty url'')
             else Inr \<lparr>Scheme = [], Host = [], Path = s, RawQuery = [], Fragment = []\<rparr>),
      ext_Query = (\<lambda>u. [(''a'', [''1''])]),
      ext_Encode =
        (\<lambda>q. concat (map (\<lambda>(k, vs). concat (map (\<lambda>v. k @ ''='' @ v @ ''&'') vs)) q)),
      ext_String = (\<lambda>u. Path u @ ''?'' @ RawQuery u)\<rparr>"

definition bob :: Identity where
  "bob = \<lparr>Username = ''bob'', LastLogin = 0\<rparr>"


text \<open>
  Requests whose argument is the entity they name; the authorizer refuses the entity
  \<^verbatim>\<open>forbidden\<close>.
\<close>

definition example_reqenv :: "string reqenv" where
  "example_reqenv =
     \<lparr>ext_opForRequest = (\<lambda>arg. \<lparr>Entity = arg, Action = ''login''\<rparr>),
      ext_Auth = (\<lambda>tr op. if Entity op = ''forbidden'' then Some (ErrorCode ''forbidden'')
                           else None)\<rparr>"

section \<open>Properties of the minter\<close>

lemmas collaborator_defs =
  time_Now_def Oven_NewMacaroon_def Store_UpdateIdentity_def Store_Identity_def
  place_Done_def dischargeTokenStore_Put_def

lemmas duration_defs =
  time_Add_def dischargeTokenDuration_def identityMacaroonDuration_def Hour_def Minute_def

lemma DischargeToken_None: "DischargeToken env tr None = (Panic, tr @ [Ev_Now])"
  by (simp add: DischargeToken_def time_Now_def)

lemma DischargeToken_Some_cases:
  "(\<exists>err tr'. DischargeToken env tr (Some ident) = (Return (Inl err, ident), tr')) \<or>
   (\<exists>dt ident' tr'. DischargeToken env tr (Some ident) = (Return (Inr dt, ident'), tr'))"
  by (simp add: DischargeToken_def collaborator_defs Let_def
        split: option.splits sum.splits prod.splits)

lemma DischargeToken_no_redirect:
  "DischargeToken env tr idp = (r, tr') \<Longrightarrow>
   \<exists>es. tr' = tr @ es \<and> filter is_Redirect es = []"
  by (auto simp: DischargeToken_def collaborator_defs Let_def
        split: option.splits sum.splits prod.splits)

lemma DischargeToken_example:
  "DischargeToken example_env [] (Some bob) =
     (Return (Inr \<lparr>Kind = ''macaroon'', Value = ''bob''\<rparr>,
              \<lparr>Username = ''bob'', LastLogin = 2000\<rparr>),
      [Ev_Now,
       Ev_NewMacaroon [TimeBeforeCaveat 2419200000000000, UserDeclaration ''bob''],
       Ev_Now,
       Ev_UpdateIdentity \<lparr>Username = ''bob'', LastLogin = 2000\<rparr> [(LastLogin_field, Set_op)],
       Ev_Errorf ''cannot update last login time: store down''])"
  by (simp add: DischargeToken_def collaborator_defs duration_defs example_env_def bob_def
        declared_def Let_def)

text \<open>
  Claim C3. Whenever the minter returns a credential, its kind is \<^verbatim>\<open>macaroon\<close> and its
  value is the binary marshaling of the macaroon the oven made for two caveats: a
  time-before caveat at the clock reading of the mint plus 28 days (in nanoseconds) and
  the declaration of the username of the identity that was given.
\<close>

theorem DischargeToken_credential:
  assumes "DischargeToken env tr idp = (Return (Inr dt, ident'), tr')"
  shows "Kind dt = ''macaroon'' \<and>
         (\<exists>ident m. idp = Some ident \<and>
            ext_NewMacaroon env (tr @ [Ev_Now])
              [TimeBeforeCaveat (ext_Now env tr + 28 * 24 * 60 * 60 * 1000000000),
               UserDeclaration (Username ident)] = Inr m \<and>
            ext_MarshalBinary env m = Inr (Value dt))"
  using assms
  by (auto simp: DischargeToken_def collaborator_defs duration_defs Let_def
        split: option.splits sum.splits prod.splits)

theorem DischargeToken_credential_witness:
  "Kind \<lparr>Kind = ''macaroon'', Value = ''bob''\<rparr> = ''macaroon'' \<and>
   (\<exists>ident m. Some bob = Some ident \<and>
      ext_NewMacaroon example_env ([] @ [Ev_Now])
        [TimeBeforeCaveat (ext_Now example_env [] + 28 * 24 * 60 * 60 * 1000000000),
         UserDeclaration (Username ident)] = Inr m \<and>
      ext_MarshalBinary example_env m = Inr (Value \<lparr>Kind = ''macaroon'', Value = ''bob''\<rparr>))"
  using DischargeToken_credential [OF DischargeToken_example] .

text \<open>
  Claim C4. When the oven makes the macaroon and it marshals, and the store then fails to
  persist the identity with its new last-login time, the minter still returns the
  credential and no error; the only thing it does after the failed call is to write one
  line to the log.
\<close>

theorem DischargeToken_ignores_update_failure:
  assumes "cs = [TimeBeforeCaveat (ext_Now env tr + 28 * 24 * 60 * 60 * 1000000000),
                 UserDeclaration (Username ident)]"
    and "ext_NewMacaroon env (tr @ [Ev_Now]) cs = Inr m"
    and "ext_MarshalBinary env m = Inr v"
    and "ident1 = ident\<lparr>LastLogin := ext_Now env (tr @ [Ev_Now, Ev_NewMacaroon cs])\<rparr>"
    and "ext_UpdateIdentity env (tr @ [Ev_Now, Ev_NewMacaroon cs, Ev_Now]) ident1
           = (Some err, ident2)"
  shows "DischargeToken env tr (Some ident) =
           (Return (Inr \<lparr>Kind = ''macaroon'', Value = v\<rparr>, ident2),
            tr @ [Ev_Now, Ev_NewMacaroon cs, Ev_Now,
                  Ev_UpdateIdentity ident1 [(LastLogin_field, Set_op)],
                  Ev_Errorf (''cannot update last login time: '' @ Error err)])"
  using assms
  by (simp add: DischargeToken_def collaborator_defs duration_defs Let_def)

theorem DischargeToken_ignores_update_failure_witness:
  "ext_UpdateIdentity example_env
     [Ev_Now, Ev_NewMacaroon [TimeBeforeCaveat 2419200000000000, UserDeclaration ''bob''], Ev_Now]
     \<lparr>Username = ''bob'', LastLogin = 2000\<rparr>
     = (Some (Opaque ''store down''), \<lparr>Username = ''bob'', LastLogin = 2000\<rparr>) \<and>
   DischargeToken example_env [] (Some bob) =
     (Return (Inr \<lparr>Kind = ''macaroon'', Value = ''bob''\<rparr>,
              \<lparr>Username = ''bob'', LastLogin = 2000\<rparr>),
      [Ev_Now,
       Ev_NewMacaroon [TimeBeforeCaveat 2419200000000000, UserDeclaration ''bob''],
       Ev_Now,
       Ev_UpdateIdentity \<lparr>Username = ''bob'', LastLogin = 2000\<rparr> [(LastLogin_field, Set_op)],
       Ev_Errorf ''cannot update last login time: store down''])"
  using DischargeToken_ignores_update_failure
    [of "[TimeBeforeCaveat 2419200000000000, UserDeclaration ''bob'']" example_env "[]" bob
        "[TimeBeforeCaveat 2419200000000000, UserDeclaration ''bob'']" "''bob''"
        "\<lparr>Username = ''bob'', LastLogin = 2000\<rparr>" "Opaque ''store down''"
        "\<lparr>Username = ''bob'', LastLogin = 2000\<rparr>"]
  by (simp add: example_env_def bob_def declared_def)

section \<open>Properties of the visit completer\<close>

text \<open>
  A masked error is an \<^verbatim>\<open>*errgo.Err\<close> that is its own cause, so its response body is
  a new \<^verbatim>\<open>*httpbakery.Error\<close> and the type assertion of \<^verbatim>\<open>Failure\<close> holds.
\<close>

lemma ErrorToResponse_Mask:
  "ErrorToResponse env (Mask err) =
     Body_Error \<lparr>Code = ext_ErrorCode env (Mask err), Message = Error err, version = Version0\<rparr>"
  by (simp add: ErrorToResponse_def errorResponseBody_def Mask_def Let_def)

lemma Failure_Mask:
  "Failure env tr dischargeID (Mask err) =
     (Return (),
      (if dischargeID = [] then tr
       else tr @ [Ev_Done dischargeID
                    \<lparr>li_DischargeToken = None,
                       li_Error = Some \<lparr>Code = ext_ErrorCode env (Mask err),
                                        Message = Error err, version = Version0\<rparr>\<rparr>])
      @ [Ev_WriteError (Mask err)])"
  by (simp add: Failure_def ErrorToResponse_Mask place_Done_def)

lemma Failure_returns: "fst (Failure env tr dischargeID (Mask err)) = Return ()"
  by (simp add: Failure_Mask)

text \<open>
  An interaction-required error of a protocol version other than 0 gets a wrapped
  body: with a discharge id, \<^verbatim>\<open>Failure\<close> panics before it delivers anything.
\<close>

lemma Failure_interaction_required:
  "Failure env tr ''abc''
     (BakeryError \<lparr>Code = ''interaction required'', Message = m, version = Version3\<rparr>)
     = (Panic, tr)"
  by (simp add: Failure_def ErrorToResponse_def errorResponseBody_def
        httpbakery_ErrInteractionRequired_def httpbakery_ErrDischargeRequired_def)

lemma RedirectFailure_returns: "fst (RedirectFailure env tr returnTo state err) = Return ()"
  by (simp add: RedirectFailure_def Let_def split: prod.splits)

lemma successToken_returns: "fst (successToken env tr dischargeID dt idp) = Return ()"
  by (simp add: successToken_def Failure_returns Let_def split: prod.splits option.splits)

lemma Success_None: "Success env tr dischargeID None = (Panic, tr @ [Ev_Now])"
  by (simp add: Success_def DischargeToken_None)

lemma RedirectSuccess_None: "RedirectSuccess env tr returnTo state None = (Panic, tr @ [Ev_Now])"
  by (simp add: RedirectSuccess_def DischargeToken_None)

lemma Success_Some_returns: "fst (Success env tr dischargeID (Some ident)) = Return ()"
  using DischargeToken_Some_cases [of env tr ident]
  by (auto simp: Success_def Failure_returns successToken_returns)

lemma RedirectSuccess_Some_returns:
  "fst (RedirectSuccess env tr returnTo state (Some ident)) = Return ()"
  using DischargeToken_Some_cases [of env tr ident]
  by (auto simp: RedirectSuccess_def RedirectFailure_returns Let_def
        split: prod.splits sum.splits option.splits)

text \<open>
  Claim C9. With a nil identity the minter panics on reading the username, and so do
  \<^verbatim>\<open>Success\<close> and \<^verbatim>\<open>RedirectSuccess\<close>, which call it first; with an identity none of the
  three panics. \<^verbatim>\<open>successToken\<close>, which is given a credential already minted, returns
  normally with a nil identity.
\<close>

theorem nil_identity_panics:
  "fst (DischargeToken env tr None) = Panic \<and>
   fst (Success env tr dischargeID None) = Panic \<and>
   fst (RedirectSuccess env tr returnTo state None) = Panic \<and>
   fst (DischargeToken env tr (Some ident)) \<noteq> Panic \<and>
   fst (Success env tr dischargeID (Some ident)) = Return () \<and>
   fst (RedirectSuccess env tr returnTo state (Some ident)) = Return () \<and>
   fst (successToken env tr dischargeID dt None) = Return ()"
proof -
  have "fst (DischargeToken env tr (Some ident)) \<noteq> Panic"
    using DischargeToken_Some_cases [of env tr ident] by auto
  then show ?thesis
    by (simp add: DischargeToken_None Success_None RedirectSuccess_None
          Success_Some_returns RedirectSuccess_Some_returns successToken_returns)
qed

subsection \<open>Redirects\<close>

lemma Values_Get_Put:
  "Values_Get (Values_Put q k v) k' = (if k' = k then v else Values_Get q k')"
  by (induction q) (auto simp: Values_Get_def)

lemma Values_Get_absent: "k \<notin> fst ` set vs \<Longrightarrow> Values_Get vs k = []"
  by (simp add: Values_Get_def map_of_eq_None_iff [THEN iffD2])

lemma Values_Get_Cons:
  "Values_Get ((k', v) # vs) k = (if k = k' then v else Values_Get vs k)"
  by (simp add: Values_Get_def)

lemma fold_merge:
  "distinct (map fst query) \<Longrightarrow>
   Values_Get (fold (\<lambda>(k, v) q. Values_Put q k (Values_Get q k @ v)) query q) k
     = Values_Get q k @ Values_Get query k"
proof (induction query arbitrary: q)
  case Nil
  then show ?case by (simp add: Values_Get_def)
next
  case (Cons kv query)
  obtain k' v' where kv: "kv = (k', v')" by (cases kv)
  from Cons.prems kv have d: "distinct (map fst query)" and n: "k' \<notin> fst ` set query"
    by auto
  have step:
    "Values_Get (fold (\<lambda>(k, v) q. Values_Put q k (Values_Get q k @ v)) query
                   (Values_Put q k' (Values_Get q k' @ v'))) k
       = Values_Get (Values_Put q k' (Values_Get q k' @ v')) k @ Values_Get query k"
    by (rule Cons.IH [OF d])
  show ?case
  proof (cases "k = k'")
    case True
    with n have "Values_Get query k = []" by (simp add: Values_Get_absent)
    with True step show ?thesis
      by (simp add: kv Values_Get_Put Values_Get_Cons)
  next
    case False
    with step show ?thesis
      by (simp add: kv Values_Get_Put Values_Get_Cons)
  qed
qed

lemma redirect_refused:
  assumes "(\<exists>e. ext_Parse env returnTo = Inl e) \<or> \<not> HasPrefix returnTo (Location env)"
  shows "redirect env tr returnTo query =
           (Some (WithCausef (case ext_Parse env returnTo of Inl e \<Rightarrow> Some e | Inr u \<Rightarrow> None)
                    ErrBadRequest ''invalid return_to''), tr)"
  using assms by (auto simp: redirect_def split: sum.splits)

lemma RedirectFailure_refused:
  assumes "(\<exists>e. ext_Parse env returnTo = Inl e) \<or> \<not> HasPrefix returnTo (Location env)"
  shows "RedirectFailure env tr returnTo state err = (Return (), tr @ [Ev_WriteError err])"
  by (simp add: RedirectFailure_def Let_def redirect_refused [OF assms] split: error.splits)

text \<open>
  Claim C1. When the return address does not parse, or does not start with the location
  of the service, \<^verbatim>\<open>redirect\<close> returns an error whose cause is \<^verbatim>\<open>ErrBadRequest\<close> and
  does nothing else, whatever the query parameters; \<^verbatim>\<open>RedirectFailure\<close> then writes the
  error inline and nothing else; and \<^verbatim>\<open>RedirectSuccess\<close> ends by writing an error
  inline, with no redirect response among the events before it.
\<close>

theorem redirect_safety_gate:
  assumes "(\<exists>e. ext_Parse env returnTo = Inl e) \<or> \<not> HasPrefix returnTo (Location env)"
  shows "(\<exists>err. redirect env tr returnTo query = (Some err, tr) \<and> Cause err = ErrBadRequest) \<and>
         RedirectFailure env tr returnTo state e = (Return (), tr @ [Ev_WriteError e]) \<and>
         (\<exists>es err. RedirectSuccess env tr returnTo state (Some ident)
                      = (Return (), tr @ es @ [Ev_WriteError err]) \<and>
                    filter is_Redirect es = [])"
proof (intro conjI)
  show "\<exists>err. redirect env tr returnTo query = (Some err, tr) \<and> Cause err = ErrBadRequest"
    by (simp add: redirect_refused [OF assms] WithCausef_def)
  show "RedirectFailure env tr returnTo state e = (Return (), tr @ [Ev_WriteError e])"
    by (rule RedirectFailure_refused [OF assms])
  obtain r tr1 where dt: "DischargeToken env tr (Some ident) = (r, tr1)"
    by (cases "DischargeToken env tr (Some ident)")
  from DischargeToken_no_redirect [OF dt] obtain es1
    where es1: "tr1 = tr @ es1" "filter is_Redirect es1 = []" by blast
  from DischargeToken_Some_cases [of env tr ident] dt
  consider (fail) err where "r = Return (Inl err, ident)"
    | (ok) d ident' where "r = Return (Inr d, ident')" by auto
  then show "\<exists>es err. RedirectSuccess env tr returnTo state (Some ident)
                      = (Return (), tr @ es @ [Ev_WriteError err]) \<and> filter is_Redirect es = []"
  proof cases
    case fail
    with dt es1 show ?thesis
      by (simp add: RedirectSuccess_def RedirectFailure_refused [OF assms])
  next
    case ok
    show ?thesis
    proof (cases "ext_Put env (tr1 @ [Ev_Now]) d (time_Add (ext_Now env tr1) (10 * Minute))")
      case (Inl perr)
      with dt ok es1 show ?thesis
        by (simp add: RedirectSuccess_def RedirectFailure_refused [OF assms] time_Now_def
              dischargeTokenStore_Put_def Let_def)
    next
      case (Inr code)
      with dt ok es1 show ?thesis
        by (simp add: RedirectSuccess_def redirect_refused [OF assms] time_Now_def
              dischargeTokenStore_Put_def Let_def)
    qed
  qed
qed

theorem redirect_safety_gate_witness:
  "\<not> HasPrefix ''https://evil/x'' (Location example_env) \<and>
   (\<exists>err. redirect example_env [] ''https://evil/x'' [(''code'', [''c0de''])] = (Some err, []) \<and>
          Cause err = ErrBadRequest) \<and>
   RedirectFailure example_env [] ''https://evil/x'' ''s1'' (Opaque ''denied'')
     = (Return (), [] @ [Ev_WriteError (Opaque ''denied'')]) \<and>
   (\<exists>es err. RedirectSuccess example_env [] ''https://evil/x'' ''s1'' (Some bob)
                = (Return (), [] @ es @ [Ev_WriteError err]) \<and>
              filter is_Redirect es = [])"
proof -
  have h: "\<not> HasPrefix ''https://evil/x'' (Location example_env)"
    by (simp add: HasPrefix_def example_env_def)
  then have "(\<exists>e. ext_Parse example_env ''https://evil/x'' = Inl e) \<or>
             \<not> HasPrefix ''https://evil/x'' (Location example_env)" ..
  from redirect_safety_gate [OF this, of "[]" "[(''code'', [''c0de''])]" "''s1''"
      "Opaque ''denied''" bob] h
  show ?thesis by blast
qed

text \<open>
  Claim C10. When the return address parses and starts with the location of the
  service, \<^verbatim>\<open>redirect\<close> issues one redirect response with status 303, to the parsed
  address with its query replaced by the
  encoding of a merged query: under every key, the values the address already had,
  followed by the values given for that key. The given parameters are a Go map, so
  their keys are distinct.
\<close>

theorem redirect_merges_query:
  assumes "ext_Parse env returnTo = Inr u"
    and "HasPrefix returnTo (Location env)"
    and "distinct (map fst query)"
  shows "\<exists>q. (\<forall>k. Values_Get q k = Values_Get (ext_Query env u) k @ Values_Get query k) \<and>
             redirect env tr returnTo query =
               (None, tr @ [Ev_Redirect (ext_String env (u\<lparr>RawQuery := ext_Encode env q\<rparr>)) 303])"
  using assms
  by (auto simp: redirect_def Let_def StatusSeeOther_def fold_merge
        intro!: exI [of _ "fold (\<lambda>(k, v) q. Values_Put q k (Values_Get q k @ v)) query (ext_Query env u)"])

theorem redirect_merges_query_witness:
  "ext_Parse example_env ''https://svc/x''
     = Inr \<lparr>Scheme = [], Host = [], Path = ''https://svc/x'', RawQuery = [], Fragment = []\<rparr> \<and>
   HasPrefix ''https://svc/x'' (Location example_env) \<and>
   distinct (map fst [(''a'', [''2'']), (''code'', [''c0de''])]) \<and>
   (\<exists>q. (\<forall>k. Values_Get q k
              = Values_Get (ext_Query example_env
                  \<lparr>Scheme = [], Host = [], Path = ''https://svc/x'', RawQuery = [], Fragment = []\<rparr>) k
                @ Values_Get [(''a'', [''2'']), (''code'', [''c0de''])] k) \<and>
        redirect example_env [] ''https://svc/x'' [(''a'', [''2'']), (''code'', [''c0de''])]
          = (None, [] @ [Ev_Redirect (ext_String example_env
               (\<lparr>Scheme = [], Host = [], Path = ''https://svc/x'', RawQuery = [], Fragment = []\<rparr>
                  \<lparr>RawQuery := ext_Encode example_env q\<rparr>)) 303]))"
proof -
  have p: "ext_Parse example_env ''https://svc/x''
     = Inr \<lparr>Scheme = [], Host = [], Path = ''https://svc/x'', RawQuery = [], Fragment = []\<rparr>"
    by (simp add: example_env_def)
  have h: "HasPrefix ''https://svc/x'' (Location example_env)"
    by (simp add: HasPrefix_def example_env_def)
  have d: "distinct (map fst [(''a'', [''2'']), (''code'', [''c0de''])])"
    by simp
  from redirect_merges_query [OF p h d, of "[]"] p h d show ?thesis by blast
qed


lemma redirect_accepted:
  assumes "ext_Parse env returnTo = Inr u"
    and "HasPrefix returnTo (Location env)"
  shows "redirect env tr returnTo query =
           (None, tr @ [Ev_Redirect
              (ext_String env
                 (u\<lparr>RawQuery := ext_Encode env
                       (fold (\<lambda>(k, v) q. Values_Put q k (Values_Get q k @ v)) query
                          (ext_Query env u))\<rparr>)) 303])"
  using assms by (simp add: redirect_def Let_def StatusSeeOther_def)

text \<open>
  Claim C2. When the minter returns a credential, the discharge token store accepts it
  and the return address parses and starts with the location of the service,
  \<^verbatim>\<open>RedirectSuccess\<close> reads the clock, puts the credential in the store with an
  expiry 10 minutes (in nanoseconds) after that reading,
  and issues one redirect, with status 303, to the return address; its query holds,
  after what the address already had, the code the store gave under \<^verbatim>\<open>code\<close> and,
  exactly when the state is not empty, the state under \<^verbatim>\<open>state\<close>.
\<close>

theorem RedirectSuccess_stores_and_redirects:
  assumes "DischargeToken env tr idp = (Return (Inr dt, ident'), tr1)"
    and "expiry = ext_Now env tr1 + 10 * 60 * 1000000000"
    and "ext_Put env (tr1 @ [Ev_Now]) dt expiry = Inr code"
    and "ext_Parse env returnTo = Inr u"
    and "HasPrefix returnTo (Location env)"
  shows "\<exists>q. (\<forall>k. Values_Get q k =
                  Values_Get (ext_Query env u) k @
                  (if k = ''code'' then [code]
                   else if k = ''state'' \<and> state \<noteq> [] then [state] else [])) \<and>
             RedirectSuccess env tr returnTo state idp =
               (Return (),
                tr1 @ [Ev_Now, Ev_Put dt expiry,
                       Ev_Redirect (ext_String env (u\<lparr>RawQuery := ext_Encode env q\<rparr>)) 303])"
proof -
  define v where "v = (if state \<noteq> [] then Values_Set [(''code'', [code])] ''state'' state
                       else [(''code'', [code])])"
  define q where "q = fold (\<lambda>(k, v) q. Values_Put q k (Values_Get q k @ v)) v (ext_Query env u)"
  have d: "distinct (map fst v)"
    by (simp add: v_def Values_Set_def)
  have g: "Values_Get v k =
             (if k = ''code'' then [code]
              else if k = ''state'' \<and> state \<noteq> [] then [state] else [])" for k
    by (simp add: v_def Values_Set_def Values_Get_def)
  have "Values_Get q k =
          Values_Get (ext_Query env u) k @
          (if k = ''code'' then [code]
           else if k = ''state'' \<and> state \<noteq> [] then [state] else [])" for k
    unfolding q_def fold_merge [OF d] g ..
  moreover have "RedirectSuccess env tr returnTo state idp =
      (Return (),
       tr1 @ [Ev_Now, Ev_Put dt expiry,
              Ev_Redirect (ext_String env (u\<lparr>RawQuery := ext_Encode env q\<rparr>)) 303])"
    using assms(1-3)
    by (simp add: RedirectSuccess_def time_Now_def dischargeTokenStore_Put_def duration_defs
          Let_def redirect_accepted [OF assms(4,5)] q_def v_def)
  ultimately show ?thesis by blast
qed

theorem RedirectSuccess_stores_and_redirects_witness:
  "DischargeToken example_env [] (Some bob) =
     (Return (Inr \<lparr>Kind = ''macaroon'', Value = ''bob''\<rparr>,
              \<lparr>Username = ''bob'', LastLogin = 2000\<rparr>),
      [Ev_Now,
       Ev_NewMacaroon [TimeBeforeCaveat 2419200000000000, UserDeclaration ''bob''],
       Ev_Now,
       Ev_UpdateIdentity \<lparr>Username = ''bob'', LastLogin = 2000\<rparr> [(LastLogin_field, Set_op)],
       Ev_Errorf ''cannot update last login time: store down'']) \<and>
   HasPrefix ''https://svc/x'' (Location example_env) \<and>
   (\<exists>q. (\<forall>k. Values_Get q k =
             Values_Get (ext_Query example_env
               \<lparr>Scheme = [], Host = [], Path = ''https://svc/x'', RawQuery = [], Fragment = []\<rparr>) k @
             (if k = ''code'' then [''c0de'']
              else if k = ''state'' \<and> ''s1'' \<noteq> [] then [''s1''] else [])) \<and>
        RedirectSuccess example_env [] ''https://svc/x'' ''s1'' (Some bob) =
          (Return (),
           [Ev_Now,
            Ev_NewMacaroon [TimeBeforeCaveat 2419200000000000, UserDeclaration ''bob''],
            Ev_Now,
            Ev_UpdateIdentity \<lparr>Username = ''bob'', LastLogin = 2000\<rparr> [(LastLogin_field, Set_op)],
            Ev_Errorf ''cannot update last login time: store down''] @
           [Ev_Now, Ev_Put \<lparr>Kind = ''macaroon'', Value = ''bob''\<rparr> 600000005000,
            Ev_Redirect (ext_String example_env
              (\<lparr>Scheme = [], Host = [], Path = ''https://svc/x'', RawQuery = [], Fragment = []\<rparr>
                 \<lparr>RawQuery := ext_Encode example_env q\<rparr>)) 303]))"
proof -
  let ?u = "\<lparr>Scheme = [], Host = [], Path = ''https://svc/x'', RawQuery = [], Fragment = []\<rparr>"
  have e: "(600000005000::int) = ext_Now example_env
             [Ev_Now,
              Ev_NewMacaroon [TimeBeforeCaveat 2419200000000000, UserDeclaration ''bob''],
              Ev_Now,
              Ev_UpdateIdentity \<lparr>Username = ''bob'', LastLogin = 2000\<rparr> [(LastLogin_field, Set_op)],
              Ev_Errorf ''cannot update last login time: store down''] + 10 * 60 * 1000000000"
    by (simp add: example_env_def)
  have s: "ext_Put example_env
             ([Ev_Now,
               Ev_NewMacaroon [TimeBeforeCaveat 2419200000000000, UserDeclaration ''bob''],
               Ev_Now,
               Ev_UpdateIdentity \<lparr>Username = ''bob'', LastLogin = 2000\<rparr> [(LastLogin_field, Set_op)],
               Ev_Errorf ''cannot update last login time: store down''] @ [Ev_Now])
             \<lparr>Kind = ''macaroon'', Value = ''bob''\<rparr> 600000005000 = Inr ''c0de''"
    by (simp add: example_env_def)
  have p: "ext_Parse example_env ''https://svc/x'' = Inr ?u"
    by (simp add: example_env_def)
  have h: "HasPrefix ''https://svc/x'' (Location example_env)"
    by (simp add: HasPrefix_def example_env_def)
  from RedirectSuccess_stores_and_redirects [OF DischargeToken_example e s p h, of "''s1''"]
    DischargeToken_example h
  show ?thesis by blast
qed

lemma RedirectSuccess_example:
  "RedirectSuccess example_env [] ''https://svc/x'' ''s1'' (Some bob) =
     (Return (),
      [Ev_Now,
       Ev_NewMacaroon [TimeBeforeCaveat 2419200000000000, UserDeclaration ''bob''],
       Ev_Now,
       Ev_UpdateIdentity \<lparr>Username = ''bob'', LastLogin = 2000\<rparr> [(LastLogin_field, Set_op)],
       Ev_Errorf ''cannot update last login time: store down'',
       Ev_Now,
       Ev_Put \<lparr>Kind = ''macaroon'', Value = ''bob''\<rparr> 600000005000,
       Ev_Redirect ''https://svc/x?a=1&code=c0de&state=s1&'' 303])"
  unfolding RedirectSuccess_def DischargeToken_example
  by (simp add: time_Now_def dischargeTokenStore_Put_def duration_defs redirect_def
        HasPrefix_def Values_Set_def Values_Get_def StatusSeeOther_def example_env_def Let_def)

subsection \<open>Direct completion\<close>

lemma login_page_no_Done: "filter is_Done (login_page env ident) = []"
  by (auto simp: login_page_def Let_def split_beta filter_empty_conv split: option.splits)

lemma login_page_no_template:
  "ext_Lookup env ''login'' = None \<Longrightarrow>
   login_page env ident = [Ev_Write (''Login successful as '' @ Username ident)]"
  by (simp add: login_page_def)

lemma login_page_template:
  "ext_Lookup env ''login'' = Some t \<Longrightarrow> ext_Execute env t ident = (ws, terr) \<Longrightarrow>
   login_page env ident =
     [Ev_Header_Set ''Content-Type'' ''text/html;charset=utf-8''] @ map Ev_Write ws @
     (case terr of
        None \<Rightarrow> []
      | Some err \<Rightarrow> [Ev_Errorf (''error processing login template: '' @ Error err)])"
  by (simp add: login_page_def split: option.splits)

text \<open>
  Claim C5. With a discharge id that is not empty and a credential minted, \<^verbatim>\<open>Success\<close>
  first calls \<^verbatim>\<open>place.Done\<close> for that id with the credential. When the call succeeds,
  the completion returns and the events that follow the call are exactly the
  confirmation page for the identity: without a \<^verbatim>\<open>login\<close> template, the one write of
  \<^verbatim>\<open>Login successful as\<close> and the username; with one, the content type and the
  writes the template makes for the identity, followed, when the template fails, by one
  line in the log and nothing else. When the call fails, \<^verbatim>\<open>Success\<close> is \<^verbatim>\<open>Failure\<close>
  on the history after the call, with the masked error: the error is delivered to the
  rendezvous and written to the response, and no page is written.
\<close>

theorem Success_direct:
  assumes "dischargeID \<noteq> []"
    and "DischargeToken env tr idp = (Return (Inr dt, ident), tr1)"
    and "info = \<lparr>li_DischargeToken = Some dt, li_Error = None\<rparr>"
  shows "(ext_Done env tr1 dischargeID info = None \<longrightarrow>
            (ext_Lookup env ''login'' = None \<longrightarrow>
               Success env tr dischargeID idp =
                 (Return (),
                  tr1 @ [Ev_Done dischargeID info,
                         Ev_Write (''Login successful as '' @ Username ident)])) \<and>
            (\<forall>t ws terr. ext_Lookup env ''login'' = Some t \<longrightarrow>
               ext_Execute env t ident = (ws, terr) \<longrightarrow>
               Success env tr dischargeID idp =
                 (Return (),
                  tr1 @ [Ev_Done dischargeID info,
                         Ev_Header_Set ''Content-Type'' ''text/html;charset=utf-8'']
                    @ map Ev_Write ws
                    @ (case terr of
                         None \<Rightarrow> []
                       | Some err \<Rightarrow>
                           [Ev_Errorf (''error processing login template: '' @ Error err)])))) \<and>
         (\<forall>err. ext_Done env tr1 dischargeID info = Some err \<longrightarrow>
            Success env tr dischargeID idp =
              Failure env (tr1 @ [Ev_Done dischargeID info]) dischargeID (Mask err) \<and>
            Success env tr dischargeID idp =
              (Return (),
               tr1 @ [Ev_Done dischargeID info,
                      Ev_Done dischargeID
                        \<lparr>li_DischargeToken = None,
                           li_Error = Some \<lparr>Code = ext_ErrorCode env (Mask err),
                                            Message = Error err, version = Version0\<rparr>\<rparr>,
                      Ev_WriteError (Mask err)]))"
proof (intro conjI impI allI)
  assume "ext_Done env tr1 dischargeID info = None" "ext_Lookup env ''login'' = None"
  with assms show "Success env tr dischargeID idp =
      (Return (), tr1 @ [Ev_Done dischargeID info,
                         Ev_Write (''Login successful as '' @ Username ident)])"
    by (simp add: Success_def successToken_def place_Done_def login_page_no_template)
next
  fix t ws terr
  assume "ext_Done env tr1 dischargeID info = None"
    and "ext_Lookup env ''login'' = Some t" "ext_Execute env t ident = (ws, terr)"
  with assms show "Success env tr dischargeID idp =
      (Return (),
       tr1 @ [Ev_Done dischargeID info,
              Ev_Header_Set ''Content-Type'' ''text/html;charset=utf-8'']
         @ map Ev_Write ws
         @ (case terr of
              None \<Rightarrow> []
            | Some err \<Rightarrow> [Ev_Errorf (''error processing login template: '' @ Error err)]))"
    by (simp add: Success_def successToken_def place_Done_def login_page_template)
next
  fix err assume "ext_Done env tr1 dischargeID info = Some err"
  with assms show f: "Success env tr dischargeID idp =
      Failure env (tr1 @ [Ev_Done dischargeID info]) dischargeID (Mask err)"
    by (simp add: Success_def successToken_def place_Done_def)
  from assms(1) show "Success env tr dischargeID idp =
      (Return (),
       tr1 @ [Ev_Done dischargeID info,
              Ev_Done dischargeID
                \<lparr>li_DischargeToken = None,
                   li_Error = Some \<lparr>Code = ext_ErrorCode env (Mask err),
                                    Message = Error err, version = Version0\<rparr>\<rparr>,
              Ev_WriteError (Mask err)])"
    unfolding f by (simp add: Failure_Mask)
qed

lemma Done_example_abc:
  "ext_Done (example_env\<lparr>ext_Lookup := l\<rparr>) tr ''abc'' info = None"
  by (simp add: example_env_def)

lemma Done_example_gone:
  "ext_Done example_env tr ''gone'' info = Some (Opaque ''rendezvous not found'')"
  by (simp add: example_env_def)

lemma DischargeToken_example_Lookup:
  "DischargeToken (example_env\<lparr>ext_Lookup := l\<rparr>) [] (Some bob) =
     (Return (Inr \<lparr>Kind = ''macaroon'', Value = ''bob''\<rparr>,
              \<lparr>Username = ''bob'', LastLogin = 2000\<rparr>),
      [Ev_Now,
       Ev_NewMacaroon [TimeBeforeCaveat 2419200000000000, UserDeclaration ''bob''],
       Ev_Now,
       Ev_UpdateIdentity \<lparr>Username = ''bob'', LastLogin = 2000\<rparr> [(LastLogin_field, Set_op)],
       Ev_Errorf ''cannot update last login time: store down''])"
  by (simp add: DischargeToken_def collaborator_defs duration_defs example_env_def bob_def
        declared_def Let_def)

theorem Success_direct_witness:
  "Success example_env [] ''abc'' (Some bob) =
     (Return (),
      [Ev_Now,
       Ev_NewMacaroon [TimeBeforeCaveat 2419200000000000, UserDeclaration ''bob''],
       Ev_Now,
       Ev_UpdateIdentity \<lparr>Username = ''bob'', LastLogin = 2000\<rparr> [(LastLogin_field, Set_op)],
       Ev_Errorf ''cannot update last login time: store down'',
       Ev_Done ''abc'' \<lparr>li_DischargeToken = Some \<lparr>Kind = ''macaroon'', Value = ''bob''\<rparr>,
                        li_Error = None\<rparr>,
       Ev_Header_Set ''Content-Type'' ''text/html;charset=utf-8'', Ev_Write ''<p>bob'',
       Ev_Errorf ''error processing login template: template broken'']) \<and>
   Success (example_env\<lparr>ext_Lookup := (\<lambda>n. None)\<rparr>) [] ''abc'' (Some bob) =
     (Return (),
      [Ev_Now,
       Ev_NewMacaroon [TimeBeforeCaveat 2419200000000000, UserDeclaration ''bob''],
       Ev_Now,
       Ev_UpdateIdentity \<lparr>Username = ''bob'', LastLogin = 2000\<rparr> [(LastLogin_field, Set_op)],
       Ev_Errorf ''cannot update last login time: store down'',
       Ev_Done ''abc'' \<lparr>li_DischargeToken = Some \<lparr>Kind = ''macaroon'', Value = ''bob''\<rparr>,
                        li_Error = None\<rparr>,
       Ev_Write ''Login successful as bob'']) \<and>
   Success example_env [] ''gone'' (Some bob) =
     (Return (),
      [Ev_Now,
       Ev_NewMacaroon [TimeBeforeCaveat 2419200000000000, UserDeclaration ''bob''],
       Ev_Now,
       Ev_UpdateIdentity \<lparr>Username = ''bob'', LastLogin = 2000\<rparr> [(LastLogin_field, Set_op)],
       Ev_Errorf ''cannot update last login time: store down'',
       Ev_Done ''gone'' \<lparr>li_DischargeToken = Some \<lparr>Kind = ''macaroon'', Value = ''bob''\<rparr>,
                         li_Error = None\<rparr>,
       Ev_Done ''gone'' \<lparr>li_DischargeToken = None,
                         li_Error = Some \<lparr>Code = [], Message = ''rendezvous not found'',
                                          version = Version0\<rparr>\<rparr>,
       Ev_WriteError (Mask (Opaque ''rendezvous not found''))])"
proof -
  have a: "''abc'' \<noteq> []" and g: "''gone'' \<noteq> []" by simp_all
  have l: "ext_Lookup example_env ''login'' = Some ''page''"
    and x: "ext_Execute example_env ''page'' \<lparr>Username = ''bob'', LastLogin = 2000\<rparr>
              = ([''<p>bob''], Some (Opaque ''template broken''))"
    and n: "ext_Lookup (example_env\<lparr>ext_Lookup := (\<lambda>n. None)\<rparr>) ''login'' = None"
    and c: "ext_ErrorCode example_env e = []" for e
    by (simp_all add: example_env_def)
  note page = Success_direct [OF a DischargeToken_example refl, THEN conjunct1, rule_format,
      OF Done_example_abc [of "ext_Lookup example_env", simplified], THEN conjunct2,
      rule_format, OF l x]
  note plain = Success_direct [OF a DischargeToken_example_Lookup refl, THEN conjunct1,
      rule_format, OF Done_example_abc, THEN conjunct1, rule_format, OF n]
  note gone = Success_direct [OF g DischargeToken_example refl, THEN conjunct2, rule_format,
      OF Done_example_gone, THEN conjunct2]
  from page plain gone show ?thesis
    by (simp add: c)
qed

subsection \<open>Completion without an identity\<close>





subsection \<open>How the completions are told apart\<close>

lemma successToken_Done_iff:
  "\<exists>es. snd (successToken env tr dischargeID dt idp) = tr @ es \<and>
        (filter is_Done es = [] \<longleftrightarrow> dischargeID = [])"
proof (cases "dischargeID = []")
  case True
  then show ?thesis
    by (simp add: successToken_def Store_Identity_def Let_def login_page_no_Done split_beta
          split: option.splits)
next
  case False
  then show ?thesis
    by (simp add: successToken_def Store_Identity_def place_Done_def Failure_Mask Let_def
          split_beta split: option.splits)
qed

lemma redirect_no_Done:
  "\<exists>es. snd (redirect env tr returnTo query) = tr @ es \<and> filter is_Done es = []"
  by (simp add: redirect_def Let_def split: sum.splits)

lemma RedirectFailure_no_Done:
  "\<exists>es. snd (RedirectFailure env tr returnTo state err) = tr @ es \<and> filter is_Done es = []"
proof -
  obtain v where v: "RedirectFailure env tr returnTo state err =
      (let (rerr, tr1) = redirect env tr returnTo v
       in if rerr = None then (Return (), tr1) else (Return (), tr1 @ [Ev_WriteError err]))"
    by (simp add: RedirectFailure_def Let_def)
  from redirect_no_Done [of env tr returnTo v] obtain es
    where "snd (redirect env tr returnTo v) = tr @ es" "filter is_Done es = []" by blast
  with v show ?thesis
    by (simp add: split_beta)
qed

lemma DischargeToken_no_Done:
  "DischargeToken env tr idp = (r, tr') \<Longrightarrow>
   \<exists>es. tr' = tr @ es \<and> filter is_Done es = []"
  by (auto simp: DischargeToken_def collaborator_defs Let_def
        split: option.splits sum.splits prod.splits)

lemma RedirectSuccess_no_Done:
  "\<exists>es. snd (RedirectSuccess env tr returnTo state idp) = tr @ es \<and> filter is_Done es = []"
proof -
  obtain r tr1 where dt: "DischargeToken env tr idp = (r, tr1)"
    by (cases "DischargeToken env tr idp")
  from DischargeToken_no_Done [OF dt] obtain es1
    where es1: "tr1 = tr @ es1" "filter is_Done es1 = []" by blast
  show ?thesis
  proof (cases r)
    case Panic
    with dt es1 show ?thesis by (simp add: RedirectSuccess_def)
  next
    case (Return p)
    obtain res ident where p: "p = (res, ident)" by (cases p)
    show ?thesis
    proof (cases res)
      case (Inl err)
      from RedirectFailure_no_Done [of env tr1 returnTo state "Mask err"] obtain es2
        where "snd (RedirectFailure env tr1 returnTo state (Mask err)) = tr1 @ es2"
          "filter is_Done es2 = []" by blast
      with dt es1 Return p Inl show ?thesis
        by (simp add: RedirectSuccess_def)
    next
      case (Inr d)
      let ?tr3 = "tr1 @ [Ev_Now, Ev_Put d (time_Add (ext_Now env tr1) (10 * Minute))]"
      show ?thesis
      proof (cases "ext_Put env (tr1 @ [Ev_Now]) d (time_Add (ext_Now env tr1) (10 * Minute))")
        case (Inl perr)
        from RedirectFailure_no_Done [of env ?tr3 returnTo state "Mask perr"] obtain es2
          where "snd (RedirectFailure env ?tr3 returnTo state (Mask perr)) = ?tr3 @ es2"
            "filter is_Done es2 = []" by blast
        with dt es1 Return p Inr Inl show ?thesis
          by (simp add: RedirectSuccess_def time_Now_def dischargeTokenStore_Put_def Let_def)
      next
        case (Inr code)
        have rs: "RedirectSuccess env tr returnTo state idp =
            (case fst (redirect env ?tr3 returnTo v) of
               Some err \<Rightarrow> (Return (), snd (redirect env ?tr3 returnTo v) @ [Ev_WriteError err])
             | None \<Rightarrow> (Return (), snd (redirect env ?tr3 returnTo v)))"
          if "v = (if state \<noteq> [] then Values_Set [(''code'', [code])] ''state'' state
                   else [(''code'', [code])])" for v
          using dt Return p \<open>res = Inr d\<close> Inr
          unfolding that
          by (simp add: RedirectSuccess_def time_Now_def dischargeTokenStore_Put_def Let_def
                split_beta)
        obtain v where v: "v = (if state \<noteq> [] then Values_Set [(''code'', [code])] ''state'' state
                                else [(''code'', [code])])" by simp
        from redirect_no_Done [of env ?tr3 returnTo v] obtain es2
          where "snd (redirect env ?tr3 returnTo v) = ?tr3 @ es2" "filter is_Done es2 = []"
          by blast
        with es1 show ?thesis
          unfolding rs [OF v] by (simp split: option.splits)
      qed
    qed
  qed
qed

lemma Failure_cases:
  "Failure env tr dischargeID err =
     (if dischargeID = [] then (Return (), tr @ [Ev_WriteError err])
      else case ErrorToResponse env err of
             Body_Error e \<Rightarrow>
               (Return (),
                tr @ [Ev_Done dischargeID \<lparr>li_DischargeToken = None, li_Error = Some e\<rparr>,
                      Ev_WriteError err])
           | Body_CustomHeader e \<Rightarrow> (Panic, tr))"
  by (simp add: Failure_def place_Done_def split: body.splits)

text \<open>
  Claim C7, as the code has it. There is no value that names the completion mode. The
  direct completions take the discharge id as a string and test it. \<^verbatim>\<open>Failure\<close> with
  an empty discharge id only writes the error; with a discharge id it delivers the
  error to the rendezvous place and then writes it, unless the response body of the
  error is not an \<^verbatim>\<open>*httpbakery.Error\<close>, in which case it panics before it does
  either. \<^verbatim>\<open>successToken\<close> delivers to the rendezvous place exactly when the
  discharge id is not empty. The redirect completions are entry points of their own:
  \<^verbatim>\<open>RedirectFailure\<close> and \<^verbatim>\<open>RedirectSuccess\<close> never deliver to the rendezvous place.
\<close>

theorem completion_tests_discharge_id:
  "Failure env tr dischargeID err =
     (if dischargeID = [] then (Return (), tr @ [Ev_WriteError err])
      else case ErrorToResponse env err of
             Body_Error e \<Rightarrow>
               (Return (),
                tr @ [Ev_Done dischargeID \<lparr>li_DischargeToken = None, li_Error = Some e\<rparr>,
                      Ev_WriteError err])
           | Body_CustomHeader e \<Rightarrow> (Panic, tr)) \<and>
   (\<exists>es. snd (successToken env tr dischargeID dt idp) = tr @ es \<and>
         (filter is_Done es = [] \<longleftrightarrow> dischargeID = [])) \<and>
   (\<exists>es. snd (RedirectFailure env tr returnTo state err) = tr @ es \<and>
         filter is_Done es = []) \<and>
   (\<exists>es. snd (RedirectSuccess env tr returnTo state idp) = tr @ es \<and>
         filter is_Done es = [])"
  by (intro conjI Failure_cases successToken_Done_iff RedirectFailure_no_Done
        RedirectSuccess_no_Done)

theorem completion_tests_discharge_id_witness:
  "Failure example_env [] ''abc'' (Opaque ''denied'') =
     (Return (),
      [Ev_Done ''abc'' \<lparr>li_DischargeToken = None,
                        li_Error = Some \<lparr>Code = [], Message = ''denied'',
                                         version = Version0\<rparr>\<rparr>,
       Ev_WriteError (Opaque ''denied'')]) \<and>
   Failure example_env [] ''abc''
     (BakeryError \<lparr>Code = ''interaction required'', Message = ''login first'',
                   version = Version3\<rparr>) = (Panic, []) \<and>
   Failure example_env [] []
     (BakeryError \<lparr>Code = ''interaction required'', Message = ''login first'',
                   version = Version3\<rparr>) =
     (Return (),
      [Ev_WriteError (BakeryError \<lparr>Code = ''interaction required'', Message = ''login first'',
                                   version = Version3\<rparr>)])"
  using completion_tests_discharge_id
      [of example_env "[]" "''abc''" "Opaque ''denied''", THEN conjunct1]
    completion_tests_discharge_id
      [of example_env "[]" "''abc''"
          "BakeryError \<lparr>Code = ''interaction required'', Message = ''login first'',
                        version = Version3\<rparr>", THEN conjunct1]
    completion_tests_discharge_id
      [of example_env "[]" "[]"
          "BakeryError \<lparr>Code = ''interaction required'', Message = ''login first'',
                        version = Version3\<rparr>", THEN conjunct1]
  by (simp add: ErrorToResponse_def errorResponseBody_def example_env_def
        httpbakery_ErrInteractionRequired_def httpbakery_ErrDischargeRequired_def)

text \<open>
  Against claim C7 as it is stated: on the same history and with the same error,
  \<^verbatim>\<open>Failure\<close> delivers the outcome to the rendezvous place or does not, according to
  whether the discharge id it was given is empty.
\<close>

theorem completion_mode_counterexample:
  "snd (Failure example_env [] [] (Opaque ''denied'')) = [Ev_WriteError (Opaque ''denied'')] \<and>
   snd (Failure example_env [] ''abc'' (Opaque ''denied'')) =
     [Ev_Done ''abc'' \<lparr>li_DischargeToken = None,
                       li_Error = Some \<lparr>Code = [], Message = ''denied'',
                                        version = Version0\<rparr>\<rparr>,
      Ev_WriteError (Opaque ''denied'')]"
  by (simp add: Failure_def place_Done_def ErrorToResponse_def errorResponseBody_def
        example_env_def httpbakery_ErrInteractionRequired_def
        httpbakery_ErrDischargeRequired_def)

section \<open>Properties of the handler creator\<close>

lemma held_append: "held h (tr @ es) = held h tr + held h es"
  by (simp add: held_def)

lemma handler_Close_created:
  "snd (handler_Close
          \<lparr>close = (\<lambda>tr'. (tr' @ [Ev_close MeetingStore_handle]) @ [Ev_close Store_handle])\<rparr> tr)
     = tr @ [Ev_close MeetingStore_handle, Ev_close Store_handle, Ev_Finish, Ev_ObserveMetric]"
  by (simp add: handler_Close_def)

lemma handlerCreator_cases:
  "handlerCreator hParams tr arg =
     (let hnd = \<lparr>close = (\<lambda>tr'. (tr' @ [Ev_close MeetingStore_handle]) @ [Ev_close Store_handle])\<rparr>;
          op = ext_opForRequest hParams arg;
          tr4 = tr @ [Ev_trace_New, Ev_Context Store_handle, Ev_Context MeetingStore_handle,
                      Ev_Debugf ''opForRequest'']
      in if Entity op = []
         then (Inl ErrUnauthorized,
               tr4 @ [Ev_close MeetingStore_handle, Ev_close Store_handle, Ev_Finish,
                      Ev_ObserveMetric])
         else case ext_Auth hParams tr4 op of
                Some err \<Rightarrow>
                  (Inl (Mask_Any err),
                   tr4 @ [Ev_Auth op, Ev_close MeetingStore_handle, Ev_close Store_handle,
                          Ev_Finish, Ev_ObserveMetric])
              | None \<Rightarrow> (Inr hnd, tr4 @ [Ev_Auth op]))"
  by (simp add: handlerCreator_def Context_def reqAuth_Auth_def handler_Close_def Let_def
        split: option.splits)

text \<open>
  Claim C8. The handler creator opens the two handles. When the operation has an empty
  entity it answers \<^verbatim>\<open>ErrUnauthorized\<close>; when the authorizer fails it answers the masked
  error; on both paths every handle it opened is closed again when it returns. Otherwise
  it returns the handler with both handles open, and \<^verbatim>\<open>Close\<close> on that handler, on any
  later history, closes one handle of each kind.
\<close>

theorem handlerCreator_releases_handles:
  assumes "handlerCreator hParams tr arg = (r, tr')"
    and "op = ext_opForRequest hParams arg"
    and "tr4 = tr @ [Ev_trace_New, Ev_Context Store_handle, Ev_Context MeetingStore_handle,
                     Ev_Debugf ''opForRequest'']"
  shows "(Entity op = [] \<longrightarrow> r = Inl ErrUnauthorized) \<and>
         (\<forall>err. Entity op \<noteq> [] \<longrightarrow> ext_Auth hParams tr4 op = Some err \<longrightarrow>
                r = Inl (Mask_Any err)) \<and>
         (\<forall>err. r = Inl err \<longrightarrow> held h tr' = held h tr) \<and>
         (\<forall>hnd. r = Inr hnd \<longrightarrow>
            Entity op \<noteq> [] \<and> ext_Auth hParams tr4 op = None \<and>
            held h tr' = held h tr + 1 \<and>
            (\<forall>tr''. held h (snd (handler_Close hnd tr'')) = held h tr'' - 1))"
proof (cases "Entity op = []")
  case True
  with assms have "r = Inl ErrUnauthorized"
    and "tr' = tr4 @ [Ev_close MeetingStore_handle, Ev_close Store_handle, Ev_Finish,
                      Ev_ObserveMetric]"
    by (simp_all add: handlerCreator_cases Let_def)
  with True assms(3) show ?thesis
    by (cases h) (simp_all add: held_def)
next
  case False
  show ?thesis
  proof (cases "ext_Auth hParams tr4 op")
    case (Some err)
    with False assms have "r = Inl (Mask_Any err)"
      and "tr' = tr4 @ [Ev_Auth op, Ev_close MeetingStore_handle, Ev_close Store_handle,
                        Ev_Finish, Ev_ObserveMetric]"
      by (simp_all add: handlerCreator_cases Let_def)
    with False Some assms(3) show ?thesis
      by (cases h) (simp_all add: held_def)
  next
    case None
    with False assms
    have r: "r = Inr \<lparr>close = (\<lambda>tr'. (tr' @ [Ev_close MeetingStore_handle])
                                      @ [Ev_close Store_handle])\<rparr>"
      and t: "tr' = tr4 @ [Ev_Auth op]"
      by (simp_all add: handlerCreator_cases Let_def)
    from t assms(3) have "held h tr' = held h tr + 1"
      by (cases h) (simp_all add: held_def)
    moreover have "held h (snd (handler_Close
        \<lparr>close = (\<lambda>tr'. (tr' @ [Ev_close MeetingStore_handle]) @ [Ev_close Store_handle])\<rparr> tr''))
          = held h tr'' - 1" for tr''
      unfolding handler_Close_created
      by (cases h) (simp_all add: held_def)
    ultimately show ?thesis
      using False None r by simp
  qed
qed

lemma handlerCreator_example_unauthorized:
  "handlerCreator example_reqenv [] [] =
     (Inl ErrUnauthorized,
      [Ev_trace_New, Ev_Context Store_handle, Ev_Context MeetingStore_handle,
       Ev_Debugf ''opForRequest'', Ev_close MeetingStore_handle, Ev_close Store_handle,
       Ev_Finish, Ev_ObserveMetric])"
  by (simp add: handlerCreator_cases example_reqenv_def Let_def)

lemma handlerCreator_example_forbidden:
  "handlerCreator example_reqenv [] ''forbidden'' =
     (Inl (Mask_Any (ErrorCode ''forbidden'')),
      [Ev_trace_New, Ev_Context Store_handle, Ev_Context MeetingStore_handle,
       Ev_Debugf ''opForRequest'', Ev_Auth \<lparr>Entity = ''forbidden'', Action = ''login''\<rparr>,
       Ev_close MeetingStore_handle, Ev_close Store_handle, Ev_Finish, Ev_ObserveMetric])"
  by (simp add: handlerCreator_cases example_reqenv_def Let_def)

lemma handlerCreator_example_granted:
  "handlerCreator example_reqenv [] ''global'' =
     (Inr \<lparr>close = (\<lambda>tr'. (tr' @ [Ev_close MeetingStore_handle]) @ [Ev_close Store_handle])\<rparr>,
      [Ev_trace_New, Ev_Context Store_handle, Ev_Context MeetingStore_handle,
       Ev_Debugf ''opForRequest'', Ev_Auth \<lparr>Entity = ''global'', Action = ''login''\<rparr>])"
  by (simp add: handlerCreator_cases example_reqenv_def Let_def)

theorem handlerCreator_releases_handles_witness:
  "held Store_handle
     [Ev_trace_New, Ev_Context Store_handle, Ev_Context MeetingStore_handle,
      Ev_Debugf ''opForRequest'', Ev_close MeetingStore_handle, Ev_close Store_handle,
      Ev_Finish, Ev_ObserveMetric] = held Store_handle [] \<and>
   held MeetingStore_handle
     [Ev_trace_New, Ev_Context Store_handle, Ev_Context MeetingStore_handle,
      Ev_Debugf ''opForRequest'', Ev_Auth \<lparr>Entity = ''forbidden'', Action = ''login''\<rparr>,
      Ev_close MeetingStore_handle, Ev_close Store_handle, Ev_Finish, Ev_ObserveMetric]
     = held MeetingStore_handle [] \<and>
   held Store_handle
     [Ev_trace_New, Ev_Context Store_handle, Ev_Context MeetingStore_handle,
      Ev_Debugf ''opForRequest'', Ev_Auth \<lparr>Entity = ''global'', Action = ''login''\<rparr>]
     = held Store_handle [] + 1 \<and>
   held Store_handle
     (snd (handler_Close
        \<lparr>close = (\<lambda>tr'. (tr' @ [Ev_close MeetingStore_handle]) @ [Ev_close Store_handle])\<rparr>
        [Ev_trace_New, Ev_Context Store_handle, Ev_Context MeetingStore_handle,
         Ev_Debugf ''opForRequest'', Ev_Auth \<lparr>Entity = ''global'', Action = ''login''\<rparr>]))
     = held Store_handle
         [Ev_trace_New, Ev_Context Store_handle, Ev_Context MeetingStore_handle,
          Ev_Debugf ''opForRequest'', Ev_Auth \<lparr>Entity = ''global'', Action = ''login''\<rparr>] - 1"
proof -
  note u = handlerCreator_releases_handles
    [OF handlerCreator_example_unauthorized refl refl, of Store_handle]
  note f = handlerCreator_releases_handles
    [OF handlerCreator_example_forbidden refl refl, of MeetingStore_handle]
  note g = handlerCreator_releases_handles
    [OF handlerCreator_example_granted refl refl, of Store_handle]
  from u f g show ?thesis by simp
qed

end
